theory Spec2Isabelle
  imports Main "HOL-Library.Word" "HOL-Library.Multiset"
begin

section \<open>relstorage.\_compat: OID and TID data structures\<close>

text \<open>
  The module \<^verbatim>\<open>src/relstorage/_compat.py\<close> runs once, at import. It looks at the
  interpreter it runs on and binds the names \<^verbatim>\<open>OID_TID_MAP_TYPE\<close>,
  \<^verbatim>\<open>OID_OBJECT_MAP_TYPE\<close>, \<^verbatim>\<open>OID_SET_TYPE\<close>, \<^verbatim>\<open>OidList\<close>, \<^verbatim>\<open>MAX_TID\<close> and a
  handful of functions over the chosen containers. The embedding makes what the module
  reads from its environment a record, and each module-level \<^verbatim>\<open>if\<close> a function of it.
\<close>

subsection \<open>Exceptions\<close>

datatype error = KeyError | ValueError | TypeError | AttributeError

subsection \<open>The interpreter the module is imported on\<close>

text \<open>
  \<^item> \<open>python_implementation\<close>: the result of \<^verbatim>\<open>platform.python_implementation()\<close>;
  \<^item> \<open>version_info\<close>: \<^verbatim>\<open>sys.version_info[:2]\<close>, the major and minor version;
  \<^item> \<open>c_btrees\<close>: whether \<^verbatim>\<open>BTrees.LLBTree.LLBTree is not BTrees.LLBTree.LLBTreePy\<close>,
    that is, whether the C extension of BTrees was loaded;
  \<^item> \<open>has_typecode_Q\<close>: whether the \<^verbatim>\<open>array\<close> module knows the type code \<^verbatim>\<open>'Q'\<close>
    (Python 3 built with a compiler that supports \<^verbatim>\<open>long long\<close>);
  \<^item> \<open>sizeof_unsigned_long\<close>: the item size in bytes of the type code \<^verbatim>\<open>'L'\<close>;
  \<^item> \<open>dict_hash_slot\<close>: where the interpreter's \<^verbatim>\<open>dict\<close> is a plain hash table, the slot
    in which a \<^verbatim>\<open>dict\<close> holding the given keys (in the order they were inserted) keeps
    the given key. The module does not decide it and no property below fixes it.
\<close>

record platform =
  python_implementation :: string
  version_info :: "nat \<times> nat"
  c_btrees :: bool
  has_typecode_Q :: bool
  sizeof_unsigned_long :: nat
  dict_hash_slot :: "int list \<Rightarrow> int \<Rightarrow> nat"

text \<open>Lines 75-78. The comparison of \<^verbatim>\<open>sys.version_info[:2]\<close> with a pair is lexicographic.\<close>

definition PY3 :: "platform \<Rightarrow> bool" where
  "PY3 p = (fst (version_info p) = 3)"

definition PY36 :: "platform \<Rightarrow> bool" where
  "PY36 p =
     (3 < fst (version_info p) \<or> (fst (version_info p) = 3 \<and> 6 \<le> snd (version_info p)))"

definition PY2 :: "platform \<Rightarrow> bool" where
  "PY2 p = (\<not> PY3 p)"

definition PYPY :: "platform \<Rightarrow> bool" where
  "PYPY p = (python_implementation p = ''PyPy'')"

text \<open>
  Whether a \<^verbatim>\<open>dict\<close> iterates in insertion order is a property of the interpreter: PyPy
  does on every version, CPython does from 3.6 on, and from 3.7 on the language requires
  it. Before that (Python 2, which the module supports) a \<^verbatim>\<open>dict\<close> iterates in the
  order of the slots of its hash table.
\<close>

definition dict_keeps_insertion_order :: "platform \<Rightarrow> bool" where
  "dict_keeps_insertion_order p = (PYPY p \<or> PY36 p)"

subsection \<open>The array module, as far as the probe uses it\<close>

datatype typecode = Q | L

record array =
  typecode :: typecode
  itemsize :: nat
  items :: "int list"

text \<open>
  \<^verbatim>\<open>array.array(code, initializer)\<close>. The type code \<^verbatim>\<open>'L'\<close> exists on every
  interpreter; \<^verbatim>\<open>'Q'\<close> raises \<^verbatim>\<open>ValueError\<close> (bad typecode) where it does not exist.
  The probe only ever passes the initializer \<^verbatim>\<open>[1]\<close>, which fits every element type.
\<close>

fun array_array :: "platform \<Rightarrow> typecode \<Rightarrow> int list \<Rightarrow> error + array" where
  "array_array p Q init =
     (if has_typecode_Q p
      then Inr \<lparr>typecode = Q, itemsize = 8, items = init\<rparr>
      else Inl ValueError)"
| "array_array p L init =
     Inr \<lparr>typecode = L, itemsize = sizeof_unsigned_long p, items = init\<rparr>"

subsection \<open>The 64-bit family of BTrees\<close>

text \<open>
  The constants belong to the BTrees package: its 64-bit family has \<^verbatim>\<open>_BITSIZE = 64\<close>
  and sets \<^verbatim>\<open>maxint = 2 ** (_BITSIZE - 1) - 1\<close> and \<^verbatim>\<open>minint = -maxint - 1\<close>, the bounds of
  the C \<^verbatim>\<open>long long\<close> in which its containers store an integer key or value. An integer
  outside these bounds is refused with \<^verbatim>\<open>TypeError\<close> by every operation that has to
  convert it, and the container stays as it was.
\<close>

definition family64_BITSIZE :: nat where
  "family64_BITSIZE = 64"

definition family64_maxint :: int where
  "family64_maxint = 2 ^ (family64_BITSIZE - 1) - 1"

definition family64_minint :: int where
  "family64_minint = - family64_maxint - 1"

definition in_family64 :: "int \<Rightarrow> bool" where
  "in_family64 i = (family64_minint \<le> i \<and> i \<le> family64_maxint)"

subsection \<open>Which containers the module binds\<close>

text \<open>
  Lines 102-105 and 120-123: with the C extension of BTrees the three container names are
  bound to \<^verbatim>\<open>family64.II.BTree\<close>, \<^verbatim>\<open>family64.IO.BTree\<close> and \<^verbatim>\<open>family64.II.TreeSet\<close>;
  without it, to the built-in \<^verbatim>\<open>dict\<close>, \<^verbatim>\<open>dict\<close> and \<^verbatim>\<open>set\<close>. An \<^verbatim>\<open>II\<close> tree maps
  integers to integers, an \<^verbatim>\<open>IO\<close> tree integers to objects.
\<close>

datatype btree_family = II | IO

datatype map_type = BTree_type btree_family | dict_type

datatype set_type = TreeSet_type | set_type

definition OID_TID_MAP_TYPE :: "platform \<Rightarrow> map_type" where
  "OID_TID_MAP_TYPE p = (if c_btrees p then BTree_type II else dict_type)"

definition OID_OBJECT_MAP_TYPE :: "platform \<Rightarrow> map_type" where
  "OID_OBJECT_MAP_TYPE p = (if c_btrees p then BTree_type IO else dict_type)"

definition OID_SET_TYPE :: "platform \<Rightarrow> set_type" where
  "OID_SET_TYPE p = (if c_btrees p then TreeSet_type else set_type)"

subsection \<open>Maps with their iteration order\<close>

text \<open>
  A value stored in a map is an integer or some other object, known by its identity.
  A map instance is the list of its items. Both map types come from outside the module,
  so their operations follow the behaviour of the two libraries:
  \<^item> a BTree keeps its items sorted by key: \<^verbatim>\<open>bt[k] = v\<close> puts a new key at its place
    in the order and replaces the value of an existing one. It raises \<^verbatim>\<open>TypeError\<close>
    and changes nothing when the key, or in an \<^verbatim>\<open>II\<close> tree the value, is not an integer
    of the 64-bit family;
  \<^item> the items of a \<^verbatim>\<open>dict\<close> are listed in the order in which their keys were
    inserted: \<^verbatim>\<open>d[k] = v\<close> appends a new key and replaces the value of an existing one
    where it stands. It takes any integer key and any value;
  \<^item> \<^verbatim>\<open>del m[k]\<close> raises \<^verbatim>\<open>KeyError\<close> for an absent key on both, and on a BTree
    \<^verbatim>\<open>TypeError\<close> for a key that is not an integer of the 64-bit family.
\<close>

datatype pyval = PyInt int | PyObject nat

datatype oid_map = BTree btree_family "(int \<times> pyval) list" | Dict "(int \<times> pyval) list"

fun value_ok :: "btree_family \<Rightarrow> pyval \<Rightarrow> bool" where
  "value_ok II (PyInt i) = in_family64 i"
| "value_ok II (PyObject x) = False"
| "value_ok IO v = True"

fun BTree_setitem :: "(int \<times> 'v) list \<Rightarrow> int \<Rightarrow> 'v \<Rightarrow> (int \<times> 'v) list" where
  "BTree_setitem [] k v = [(k, v)]"
| "BTree_setitem ((k', v') # t) k v =
     (if k < k' then (k, v) # (k', v') # t
      else if k = k' then (k, v) # t
      else (k', v') # BTree_setitem t k v)"

fun dict_setitem :: "(int \<times> 'v) list \<Rightarrow> int \<Rightarrow> 'v \<Rightarrow> (int \<times> 'v) list" where
  "dict_setitem [] k v = [(k, v)]"
| "dict_setitem ((k', v') # d) k v =
     (if k = k' then (k, v) # d else (k', v') # dict_setitem d k v)"

definition items_delitem :: "(int \<times> 'v) list \<Rightarrow> int \<Rightarrow> error + (int \<times> 'v) list" where
  "items_delitem xs k =
     (if k \<in> fst ` set xs then Inr (filter (\<lambda>kv. fst kv \<noteq> k) xs) else Inl KeyError)"

text \<open>Calling the type creates an empty instance.\<close>

fun new_map :: "map_type \<Rightarrow> oid_map" where
  "new_map (BTree_type f) = BTree f []"
| "new_map dict_type = Dict []"

fun setitem :: "oid_map \<Rightarrow> int \<Rightarrow> pyval \<Rightarrow> error + oid_map" where
  "setitem (BTree f t) k v =
     (if in_family64 k \<and> value_ok f v then Inr (BTree f (BTree_setitem t k v))
      else Inl TypeError)"
| "setitem (Dict d) k v = Inr (Dict (dict_setitem d k v))"

fun delitem :: "oid_map \<Rightarrow> int \<Rightarrow> error + oid_map" where
  "delitem (BTree f t) k =
     (if \<not> in_family64 k then Inl TypeError
      else case items_delitem t k of Inl e \<Rightarrow> Inl e | Inr t' \<Rightarrow> Inr (BTree f t'))"
| "delitem (Dict d) k = (case items_delitem d k of Inl e \<Rightarrow> Inl e | Inr d' \<Rightarrow> Inr (Dict d'))"

text \<open>
  \<^verbatim>\<open>list(m)\<close>: the keys, in iteration order. A BTree iterates in key order. A \<^verbatim>\<open>dict\<close>
  iterates in insertion order where the interpreter keeps it, and otherwise by the slots
  that the interpreter's hash table gives its keys.
\<close>

fun keys :: "platform \<Rightarrow> oid_map \<Rightarrow> int list" where
  "keys p (BTree f t) = map fst t"
| "keys p (Dict d) =
     (if dict_keeps_insertion_order p then map fst d
      else sort_key (dict_hash_slot p (map fst d)) (map fst d))"

text \<open>\<^verbatim>\<open>bool(m)\<close>: a container is true when it is not empty.\<close>

fun truth :: "oid_map \<Rightarrow> bool" where
  "truth (BTree f t) = (t \<noteq> [])"
| "truth (Dict d) = (d \<noteq> [])"

text \<open>
  Every instance a consumer can hold is reached from an empty one by single-key writes.
  A write or a \<^verbatim>\<open>del\<close> that raises leaves the map as it was.
\<close>

datatype map_op = SetItem int pyval | DelItem int

fun apply_op :: "oid_map \<Rightarrow> map_op \<Rightarrow> error + oid_map" where
  "apply_op m (SetItem k v) = setitem m k v"
| "apply_op m (DelItem k) = delitem m k"

fun run_ops :: "oid_map \<Rightarrow> map_op list \<Rightarrow> oid_map" where
  "run_ops m [] = m"
| "run_ops m (x # xs) =
     (case apply_op m x of Inl e \<Rightarrow> run_ops m xs | Inr m' \<Rightarrow> run_ops m' xs)"

subsection \<open>The greatest key of an object map\<close>

text \<open>
  \<^verbatim>\<open>bt.maxKey()\<close> of a BTree is the key of its last item and raises \<^verbatim>\<open>ValueError\<close> on
  an empty tree; a \<^verbatim>\<open>dict\<close> has no such method.
\<close>

fun maxKey :: "oid_map \<Rightarrow> error + int" where
  "maxKey (BTree f t) = (if t = [] then Inl ValueError else Inr (fst (last t)))"
| "maxKey (Dict d) = Inl AttributeError"

text \<open>
  \<^verbatim>\<open>iterkeys\<close> is \<^verbatim>\<open>dict.keys\<close> or \<^verbatim>\<open>dict.iterkeys\<close> (lines 88 and 93), an unbound method
  of \<^verbatim>\<open>dict\<close>: on anything that is not a \<^verbatim>\<open>dict\<close> it raises \<^verbatim>\<open>TypeError\<close>.
\<close>

fun iterkeys :: "platform \<Rightarrow> oid_map \<Rightarrow> error + int list" where
  "iterkeys p (Dict d) = Inr (keys p (Dict d))"
| "iterkeys p (BTree f t) = Inl TypeError"

text \<open>
  The built-in \<^verbatim>\<open>max\<close> of an iterable: \<^verbatim>\<open>ValueError\<close> when it is empty, otherwise a
  left-to-right scan that replaces the running maximum by each greater item.
\<close>

fun py_max :: "int list \<Rightarrow> error + int" where
  "py_max [] = Inl ValueError"
| "py_max (x # xs) = Inr (fold (\<lambda>item maxitem. if maxitem < item then item else maxitem) xs x)"

text \<open>Lines 116-119, the definition of the BTrees branch.\<close>

definition OidObjectMap_max_key_bt :: "oid_map \<Rightarrow> error + int" where
  "OidObjectMap_max_key_bt bt = (if \<not> truth bt then Inr 0 else maxKey bt)"

text \<open>
  Lines 140-143, the definition of the fallback branch. The platform is the interpreter
  the function runs on: it decides the order in which \<^verbatim>\<open>iterkeys\<close> yields the keys.
\<close>

definition OidObjectMap_max_key_mapping :: "platform \<Rightarrow> oid_map \<Rightarrow> error + int" where
  "OidObjectMap_max_key_mapping p mapping =
     (if \<not> truth mapping then Inr 0
      else case iterkeys p mapping of Inl e \<Rightarrow> Inl e | Inr ks \<Rightarrow> py_max ks)"

definition OidObjectMap_max_key :: "platform \<Rightarrow> oid_map \<Rightarrow> error + int" where
  "OidObjectMap_max_key p =
     (if c_btrees p then OidObjectMap_max_key_bt else OidObjectMap_max_key_mapping p)"

subsection \<open>Objects, references and the set algebra\<close>

text \<open>
  The set algebra is about which object a call returns and which objects it writes, so
  its arguments are references into a heap. A heap is the list of the objects allocated
  so far, a reference is an index into it, and allocation appends. Here an object is its
  content: a \<^verbatim>\<open>dict\<close> is a finite map (two \<^verbatim>\<open>dict\<close>s are equal in Python when their
  contents are, whatever their order), a \<^verbatim>\<open>set\<close> or a \<^verbatim>\<open>TreeSet\<close> is the set of its
  elements.
\<close>

type_synonym ref = nat

datatype 'v pyobj = PyDict "int \<rightharpoonup> 'v" | PySet "int set" | TreeSet "int set"

type_synonym 'v heap = "'v pyobj list"

definition alloc :: "'v heap \<Rightarrow> 'v pyobj \<Rightarrow> ref \<times> 'v heap" where
  "alloc h x = (length h, h @ [x])"

text \<open>\<^verbatim>\<open>set(c)\<close>: the keys of a \<^verbatim>\<open>dict\<close>, the elements of a set.\<close>

fun py_set :: "'v pyobj \<Rightarrow> int set" where
  "py_set (PyDict m) = dom m"
| "py_set (PySet s) = s"
| "py_set (TreeSet s) = s"

text \<open>
  \<^verbatim>\<open>dict(c)\<close>: a copy of a \<^verbatim>\<open>dict\<close>. On a set it reads each element as a key-value
  pair, which an integer is not: \<^verbatim>\<open>TypeError\<close>, unless the set is empty.
\<close>

fun py_dict :: "'v pyobj \<Rightarrow> error + (int \<rightharpoonup> 'v)" where
  "py_dict (PyDict m) = Inr m"
| "py_dict (PySet s) = (if s = {} then Inr Map.empty else Inl TypeError)"
| "py_dict (TreeSet s) = (if s = {} then Inr Map.empty else Inl TypeError)"

text \<open>
  Lines 124-127. \<^verbatim>\<open>c1 = dict(c1)\<close> rebinds the local name to a copy; the comprehension
  builds the \<^verbatim>\<open>dict\<close> that is returned. The copy and the two key sets are temporaries
  that nothing refers to after the call, so only the result is allocated.
\<close>

definition OidTMap_difference :: "'v heap \<Rightarrow> ref \<Rightarrow> ref \<Rightarrow> error + ref \<times> 'v heap" where
  "OidTMap_difference h c1 c2 =
     (case py_dict (h ! c1) of
        Inl e \<Rightarrow> Inl e
      | Inr c1' \<Rightarrow>
          Inr (alloc h (PyDict (\<lambda>k. if k \<in> dom c1' - py_set (h ! c2) then c1' k else None))))"

text \<open>Lines 135-136: \<^verbatim>\<open>set(c1) - set(c2)\<close>.\<close>

definition OidSet_difference :: "'v heap \<Rightarrow> ref \<Rightarrow> ref \<Rightarrow> ref \<times> 'v heap" where
  "OidSet_difference h c1 c2 = alloc h (PySet (py_set (h ! c1) - py_set (h ! c2)))"

text \<open>
  Lines 129-130: \<^verbatim>\<open>set().union(*seq)\<close> starts from a new empty set and adds the elements
  of each member of the sequence, from left to right.
\<close>

definition OidTMap_multiunion :: "'v heap \<Rightarrow> ref list \<Rightarrow> ref \<times> 'v heap" where
  "OidTMap_multiunion h seq = alloc h (PySet (foldl (\<lambda>acc r. acc \<union> py_set (h ! r)) {} seq))"

text \<open>
  \<^verbatim>\<open>s.remove(val)\<close>: a \<^verbatim>\<open>TreeSet\<close> and a \<^verbatim>\<open>set\<close> remove a present element and raise
  \<^verbatim>\<open>KeyError\<close> for an absent one; a \<^verbatim>\<open>dict\<close> has no such method. A \<^verbatim>\<open>TreeSet\<close> of
  the 64-bit family first converts the value to a C \<^verbatim>\<open>long long\<close> and raises
  \<^verbatim>\<open>TypeError\<close> when it does not fit; a \<^verbatim>\<open>set\<close> takes any integer.
\<close>

fun py_remove :: "'v pyobj \<Rightarrow> int \<Rightarrow> error + 'v pyobj" where
  "py_remove (TreeSet s) val =
     (if \<not> in_family64 val then Inl TypeError
      else if val \<in> s then Inr (TreeSet (s - {val}))
      else Inl KeyError)"
| "py_remove (PySet s) val = (if val \<in> s then Inr (PySet (s - {val})) else Inl KeyError)"
| "py_remove (PyDict m) val = Inl AttributeError"

text \<open>
  \<^verbatim>\<open>set.discard\<close>, the unbound method of the built-in \<^verbatim>\<open>set\<close>: it removes the element
  if it is there, and raises \<^verbatim>\<open>TypeError\<close> when its first argument is not a \<^verbatim>\<open>set\<close>.
\<close>

fun set_discard :: "'v pyobj \<Rightarrow> int \<Rightarrow> error + 'v pyobj" where
  "set_discard (PySet s) val = Inr (PySet (s - {val}))"
| "set_discard (TreeSet s) val = Inl TypeError"
| "set_discard (PyDict m) val = Inl TypeError"

text \<open>
  Lines 110-114, the definition of the BTrees branch: \<^verbatim>\<open>s.remove(val)\<close> inside a
  \<^verbatim>\<open>try\<close> whose handler swallows \<^verbatim>\<open>KeyError\<close> and nothing else, so that a
  \<^verbatim>\<open>TypeError\<close> of the conversion leaves the function. The set is changed in place: the
  heap is updated at the reference.
\<close>

definition OidSet_discard_remove :: "'v heap \<Rightarrow> ref \<Rightarrow> int \<Rightarrow> error + 'v heap" where
  "OidSet_discard_remove h s val =
     (case py_remove (h ! s) val of
        Inr x \<Rightarrow> Inr (h[s := x])
      | Inl KeyError \<Rightarrow> Inr h
      | Inl e \<Rightarrow> Inl e)"

text \<open>Line 138, the fallback branch: \<^verbatim>\<open>OidSet_discard = set.discard\<close>.\<close>

definition OidSet_discard_builtin :: "'v heap \<Rightarrow> ref \<Rightarrow> int \<Rightarrow> error + 'v heap" where
  "OidSet_discard_builtin h s val =
     (case set_discard (h ! s) val of Inr x \<Rightarrow> Inr (h[s := x]) | Inl e \<Rightarrow> Inl e)"

definition OidSet_discard :: "platform \<Rightarrow> 'v heap \<Rightarrow> ref \<Rightarrow> int \<Rightarrow> error + 'v heap" where
  "OidSet_discard p = (if c_btrees p then OidSet_discard_remove else OidSet_discard_builtin)"

text \<open>An instance of \<^verbatim>\<open>OID_SET_TYPE\<close> with the elements \<open>S\<close>.\<close>

fun oid_set :: "set_type \<Rightarrow> int set \<Rightarrow> 'v pyobj" where
  "oid_set TreeSet_type S = TreeSet S"
| "oid_set set_type S = PySet S"

subsection \<open>Lists of OIDs and TIDs\<close>

text \<open>
  The probe of lines 209-220. The module's name \<^verbatim>\<open>_64bit_array\<close> starts with an
  underscore, which an Isabelle name cannot; it is \<open>array_64bit\<close> here. \<open>None\<close> is the
  initial \<^verbatim>\<open>None\<close>, \<open>Some c\<close> is \<^verbatim>\<open>functools.partial(array.array, c)\<close>. Only
  \<^verbatim>\<open>ValueError\<close> is caught, and only around the first construction; every other
  exception, and every exception of the second construction, leaves the module.
\<close>

definition array_64bit :: "platform \<Rightarrow> error + typecode option" where
  "array_64bit p =
     (case array_array p Q [1] of
        Inr _ \<Rightarrow> Inr (Some Q)
      | Inl ValueError \<Rightarrow>
          (case array_array p L [1] of
             Inl e \<Rightarrow> Inl e
           | Inr a \<Rightarrow> Inr (if 8 \<le> itemsize a then Some L else None))
      | Inl e \<Rightarrow> Inl e)"

datatype list_type = array_type typecode | list_type

text \<open>
  Lines 222-226: \<^verbatim>\<open>if _64bit_array and not PYPY: OidList = _64bit_array\<close>, otherwise
  \<^verbatim>\<open>OidList = list\<close>. A \<^verbatim>\<open>functools.partial\<close> object is true, \<^verbatim>\<open>None\<close> is false.
\<close>

definition OidList :: "platform \<Rightarrow> error + list_type" where
  "OidList p =
     (case array_64bit p of
        Inl e \<Rightarrow> Inl e
      | Inr a \<Rightarrow>
          (case a of
             Some c \<Rightarrow> Inr (if \<not> PYPY p then array_type c else list_type)
           | None \<Rightarrow> Inr list_type))"

definition TidList :: "platform \<Rightarrow> error + list_type" where
  "TidList p = OidList p"

subsection \<open>The largest TID\<close>

text \<open>\<^verbatim>\<open>MAX_TID = BTrees.family64.maxint\<close> (line 227).\<close>

definition MAX_TID :: int where
  "MAX_TID = family64_maxint"

subsection \<open>Interpreters and a heap to run the definitions on\<close>

text \<open>
  CPython 3.7 with the C extension of BTrees; PyPy 3.6, where BTrees has no C extension;
  CPython 2.7 on a platform with a 4-byte \<^verbatim>\<open>long\<close>; and CPython 2.7 without the
  extension. Of the hash table of CPython 2.7 only this much is written down: a \<^verbatim>\<open>dict\<close>
  of up to five keys has eight slots, a small non-negative key goes to the slot of its
  value modulo 8, and 9 inserted after 1 finds slot 1 taken and lands in slot 7.
\<close>

definition cpython37 :: platform where
  "cpython37 =
     \<lparr>python_implementation = ''CPython'', version_info = (3, 7), c_btrees = True,
      has_typecode_Q = True, sizeof_unsigned_long = 8,
      dict_hash_slot = (\<lambda>ks k. 0)\<rparr>"

definition pypy36 :: platform where
  "pypy36 =
     \<lparr>python_implementation = ''PyPy'', version_info = (3, 6), c_btrees = False,
      has_typecode_Q = True, sizeof_unsigned_long = 8,
      dict_hash_slot = (\<lambda>ks k. 0)\<rparr>"

definition cpython27_32bit :: platform where
  "cpython27_32bit =
     \<lparr>python_implementation = ''CPython'', version_info = (2, 7), c_btrees = True,
      has_typecode_Q = False, sizeof_unsigned_long = 4,
      dict_hash_slot = (\<lambda>ks k. nat (k mod 8))\<rparr>"

definition cpython27_pure :: platform where
  "cpython27_pure =
     \<lparr>python_implementation = ''CPython'', version_info = (2, 7), c_btrees = False,
      has_typecode_Q = False, sizeof_unsigned_long = 8,
      dict_hash_slot =
        (\<lambda>ks k. if k = 9 \<and> 1 \<in> set (takeWhile (\<lambda>x. x \<noteq> 9) ks) then 7 else nat (k mod 8))\<rparr>"

text \<open>
  Three maps and sets of the fallback branch and one \<^verbatim>\<open>TreeSet\<close>, at the references
  0 to 5: \<^verbatim>\<open>{5: 100, 1: 50, 9: 200}\<close>, \<^verbatim>\<open>{5: 7}\<close>, \<^verbatim>\<open>set()\<close>, \<^verbatim>\<open>{1, 2, 3}\<close>,
  \<^verbatim>\<open>{2, 3, 4}\<close> and \<^verbatim>\<open>TreeSet([1, 2, 3])\<close>.
\<close>

definition example_heap :: "int heap" where
  "example_heap =
     [PyDict (map_of [(5, 100), (1, 50), (9, 200)]),
      PyDict (map_of [(5, 7)]),
      PySet {},
      PySet {1, 2, 3},
      PySet {2, 3, 4},
      TreeSet {1, 2, 3}]"


section \<open>Properties\<close>

subsection \<open>The two map types and their order\<close>

lemma keys_BTree_setitem:
  "set (map fst (BTree_setitem t k v)) = insert k (set (map fst t))"
  by (induction t k v rule: BTree_setitem.induct) auto

lemma sorted_BTree_setitem:
  "sorted_wrt (<) (map fst t) \<Longrightarrow> sorted_wrt (<) (map fst (BTree_setitem t k v))"
proof (induction t k v rule: BTree_setitem.induct)
  case (1 k v)
  then show ?case by simp
next
  case (2 k' v' t k v)
  have ks: "set (map fst (BTree_setitem t k v)) = insert k (set (map fst t))"
    by (rule keys_BTree_setitem)
  show ?case
  proof (cases "k < k'")
    case True
    with 2(2) show ?thesis by auto
  next
    case False
    show ?thesis
    proof (cases "k = k'")
      case True
      with 2(2) show ?thesis by simp
    next
      case ne: False
      with False have lt: "k' < k" by simp
      from 2(2) have "sorted_wrt (<) (map fst t)" by simp
      with 2(1) False ne have "sorted_wrt (<) (map fst (BTree_setitem t k v))" by simp
      moreover from 2(2) lt ks have "\<forall>y \<in> set (map fst (BTree_setitem t k v)). k' < y"
        by auto
      ultimately show ?thesis using False ne by simp
    qed
  qed
qed

lemma sorted_items_filter:
  "sorted_wrt (<) (map fst t) \<Longrightarrow> sorted_wrt (<) (map fst (filter P t))"
  by (induction t) auto

lemma run_ops_BTree:
  "sorted_wrt (<) (map fst t) \<Longrightarrow>
   \<exists>t'. run_ops (BTree f t) ops = BTree f t' \<and> sorted_wrt (<) (map fst t')"
proof (induction ops arbitrary: t)
  case Nil
  then show ?case by simp
next
  case (Cons x ops)
  show ?case
  proof (cases x)
    case (SetItem k v)
    show ?thesis
    proof (cases "in_family64 k \<and> value_ok f v")
      case True
      with SetItem Cons.IH [OF sorted_BTree_setitem [OF Cons.prems, of k v]]
      show ?thesis by simp
    next
      case False
      then have "setitem (BTree f t) k v = Inl TypeError" by auto
      with SetItem Cons.IH [OF Cons.prems] show ?thesis by simp
    qed
  next
    case (DelItem k)
    show ?thesis
    proof (cases "in_family64 k \<and> k \<in> fst ` set t")
      case True
      with DelItem Cons.IH [OF sorted_items_filter [OF Cons.prems, of "\<lambda>kv. fst kv \<noteq> k"]]
      show ?thesis by (simp add: items_delitem_def)
    next
      case False
      with DelItem Cons.IH [OF Cons.prems] show ?thesis
        by (auto simp: items_delitem_def)
    qed
  qed
qed

lemma run_ops_Dict: "\<exists>d'. run_ops (Dict d) ops = Dict d'"
proof (induction ops arbitrary: d)
  case Nil
  then show ?case by simp
next
  case (Cons x ops)
  then show ?case
    by (cases x) (auto simp: items_delitem_def)
qed

lemma set_keys_Dict: "set (keys p (Dict d)) = fst ` set d"
  by simp

lemma keys_Dict_Nil: "(keys p (Dict d) = []) = (d = [])"
proof -
  have "length (keys p (Dict d)) = length d" by simp
  then show ?thesis by (metis length_0_conv)
qed

lemma keys_dict_setitem:
  "map fst (dict_setitem d k v) =
     (if k \<in> set (map fst d) then map fst d else map fst d @ [k])"
  by (induction d k v rule: dict_setitem.induct) auto

lemma map_of_dict_setitem: "map_of (dict_setitem d k v) = (map_of d)(k \<mapsto> v)"
  by (induction d k v rule: dict_setitem.induct) (auto simp: fun_eq_iff)

lemma map_of_BTree_setitem: "map_of (BTree_setitem t k v) = (map_of t)(k \<mapsto> v)"
  by (induction t k v rule: BTree_setitem.induct) (auto simp: fun_eq_iff)

lemma last_strictly_sorted_Max:
  "sorted_wrt (<) xs \<Longrightarrow> xs \<noteq> [] \<Longrightarrow> last xs = Max (set (xs :: int list))"
proof (induction xs)
  case Nil
  then show ?case by simp
next
  case (Cons x xs)
  show ?case
  proof (cases "xs = []")
    case True
    then show ?thesis by simp
  next
    case False
    with Cons have l: "last xs = Max (set xs)" by simp
    from False have "last xs \<in> set xs" by simp
    with Cons.prems have "x < last xs" by auto
    with l False show ?thesis by (simp add: max_def)
  qed
qed

lemma py_max_Max:
  "xs \<noteq> [] \<Longrightarrow> py_max xs = Inr (Max (set xs))"
proof (cases xs)
  case Nil
  assume "xs \<noteq> []"
  with Nil show ?thesis by simp
next
  case (Cons x ys)
  have "(\<lambda>item maxitem :: int. if maxitem < item then item else maxitem) = max"
    by (auto simp: fun_eq_iff max_def)
  with Cons show ?thesis
    by (simp only: py_max.simps Max.set_eq_fold)
qed

text \<open>
  Claim C1, as the code has it. With the C extension of BTrees, iterating any
  \<^verbatim>\<open>OID_TID_MAP_TYPE\<close> instance yields its keys in strictly ascending order, and a map
  populated with the keys 5, 1, 9 in that order iterates as 1, 5, 9.
\<close>

theorem ordered_iteration:
  assumes "c_btrees p"
  shows
  "sorted_wrt (<) (keys p (run_ops (new_map (OID_TID_MAP_TYPE p)) ops)) \<and>
   keys p (run_ops (new_map (OID_TID_MAP_TYPE p))
             [SetItem 5 (PyInt 100), SetItem 1 (PyInt 50), SetItem 9 (PyInt 200)]) = [1, 5, 9]"
proof -
  obtain t' where "run_ops (BTree II []) ops = BTree II t'" "sorted_wrt (<) (map fst t')"
    using run_ops_BTree [of "[]" II ops] by auto
  with assms show ?thesis
    by (simp add: OID_TID_MAP_TYPE_def in_family64_def family64_minint_def
        family64_maxint_def family64_BITSIZE_def)
qed

theorem ordered_iteration_witness:
  "c_btrees cpython37 \<and>
   sorted_wrt (<) (keys cpython37 (run_ops (new_map (OID_TID_MAP_TYPE cpython37))
     [SetItem 7 (PyInt 3), SetItem 2 (PyInt 4), DelItem 7, SetItem (2 ^ 63) (PyInt 1),
      SetItem 4 (PyInt 1), DelItem 8])) \<and>
   keys cpython37 (run_ops (new_map (OID_TID_MAP_TYPE cpython37))
     [SetItem 7 (PyInt 3), SetItem 2 (PyInt 4), DelItem 7, SetItem (2 ^ 63) (PyInt 1),
      SetItem 4 (PyInt 1), DelItem 8]) = [2, 4] \<and>
   keys cpython37 (run_ops (new_map (OID_TID_MAP_TYPE cpython37))
     [SetItem 5 (PyInt 100), SetItem 1 (PyInt 50), SetItem 9 (PyInt 200)]) = [1, 5, 9]"
proof -
  have c: "c_btrees cpython37"
    by (simp add: cpython37_def)
  have k: "keys cpython37 (run_ops (new_map (OID_TID_MAP_TYPE cpython37))
     [SetItem 7 (PyInt 3), SetItem 2 (PyInt 4), DelItem 7, SetItem (2 ^ 63) (PyInt 1),
      SetItem 4 (PyInt 1), DelItem 8]) = [2, 4]"
    by (simp add: cpython37_def OID_TID_MAP_TYPE_def items_delitem_def in_family64_def
        family64_minint_def family64_maxint_def family64_BITSIZE_def)
  note t = ordered_iteration [OF c,
      of "[SetItem 7 (PyInt 3), SetItem 2 (PyInt 4), DelItem 7, SetItem (2 ^ 63) (PyInt 1),
           SetItem 4 (PyInt 1), DelItem 8]"]
  show ?thesis
    by (rule conjI [OF c conjI [OF t [THEN conjunct1] conjI [OF k t [THEN conjunct2]]]])
qed

text \<open>
  The claim as the specification words it, for both backings, fails on the fallback. On
  PyPy the map type is \<^verbatim>\<open>dict\<close>, which there iterates in insertion order: populated with
  5, 1, 9 it iterates as 5, 1, 9, not in ascending order.
\<close>

theorem dict_iteration_not_ascending:
  "\<not> c_btrees pypy36 \<and> PYPY pypy36 \<and>
   OID_TID_MAP_TYPE pypy36 = dict_type \<and>
   keys pypy36 (run_ops (new_map (OID_TID_MAP_TYPE pypy36))
     [SetItem 5 (PyInt 100), SetItem 1 (PyInt 50), SetItem 9 (PyInt 200)]) = [5, 1, 9] \<and>
   \<not> sorted (keys pypy36 (run_ops (new_map (OID_TID_MAP_TYPE pypy36))
     [SetItem 5 (PyInt 100), SetItem 1 (PyInt 50), SetItem 9 (PyInt 200)]))"
  by (simp add: pypy36_def OID_TID_MAP_TYPE_def PYPY_def dict_keeps_insertion_order_def)

text \<open>
  On an interpreter whose \<^verbatim>\<open>dict\<close> is a plain hash table the order is that of the
  slots. With the slots of CPython 2.7 the same three keys happen to come out as 1, 5, 9,
  while a \<^verbatim>\<open>dict\<close> of the keys 9 and 2 iterates as 9, 2: the fallback promises no
  order of its own.
\<close>

lemma dict_iteration_hash_order:
  "keys cpython27_pure (run_ops (new_map (OID_TID_MAP_TYPE cpython27_pure))
     [SetItem 5 (PyInt 100), SetItem 1 (PyInt 50), SetItem 9 (PyInt 200)]) = [1, 5, 9] \<and>
   keys cpython27_pure (run_ops (new_map (OID_TID_MAP_TYPE cpython27_pure))
     [SetItem 9 (PyInt 200), SetItem 2 (PyInt 50)]) = [9, 2]"
  by (simp add: cpython27_pure_def OID_TID_MAP_TYPE_def PYPY_def PY36_def
      dict_keeps_insertion_order_def)

subsection \<open>The greatest key\<close>

text \<open>
  Claim C5. On either branch, \<^verbatim>\<open>OidObjectMap_max_key\<close> of an instance of
  \<^verbatim>\<open>OID_OBJECT_MAP_TYPE\<close> returns 0 when the map is empty and its greatest key
  otherwise, whatever the order and the gaps of the writes that built it; it never raises.
\<close>

theorem max_key_or_zero:
  "OidObjectMap_max_key p (new_map (OID_OBJECT_MAP_TYPE p)) = Inr 0 \<and>
   OidObjectMap_max_key p (run_ops (new_map (OID_OBJECT_MAP_TYPE p)) ops) =
     Inr (if keys p (run_ops (new_map (OID_OBJECT_MAP_TYPE p)) ops) = [] then 0
          else Max (set (keys p (run_ops (new_map (OID_OBJECT_MAP_TYPE p)) ops))))"
proof (cases "c_btrees p")
  case True
  obtain t' where t': "run_ops (BTree IO []) ops = BTree IO t'" "sorted_wrt (<) (map fst t')"
    using run_ops_BTree [of "[]" IO ops] by auto
  have "t' \<noteq> [] \<Longrightarrow> fst (last t') = Max (set (map fst t'))"
    using last_strictly_sorted_Max [OF t'(2)] by (simp add: last_map)
  with True t' show ?thesis
    by (simp add: OID_OBJECT_MAP_TYPE_def OidObjectMap_max_key_def OidObjectMap_max_key_bt_def)
next
  case False
  obtain d' where d': "run_ops (Dict []) ops = Dict d'"
    using run_ops_Dict [of "[]" ops] by auto
  have e: "(keys p (Dict d') = []) = (d' = [])"
    by (rule keys_Dict_Nil)
  have m: "d' \<noteq> [] \<Longrightarrow> py_max (keys p (Dict d')) = Inr (Max (set (keys p (Dict d'))))"
    using py_max_Max [of "keys p (Dict d')"] e by simp
  have v: "OidObjectMap_max_key p (Dict d') =
     Inr (if keys p (Dict d') = [] then 0 else Max (set (keys p (Dict d'))))"
  proof (cases "d' = []")
    case True
    with False show ?thesis
      by (simp add: OidObjectMap_max_key_def OidObjectMap_max_key_mapping_def)
  next
    case ne: False
    with e have "keys p (Dict d') \<noteq> []" by simp
    with False ne m [OF ne] show ?thesis
      by (simp only: OidObjectMap_max_key_def OidObjectMap_max_key_mapping_def
          truth.simps iterkeys.simps if_False if_True not_not sum.case simp_thms)
  qed
  have n: "OidObjectMap_max_key p (Dict []) = Inr 0"
    using False by (simp add: OidObjectMap_max_key_def OidObjectMap_max_key_mapping_def)
  from False d' v n show ?thesis
    by (simp only: OID_OBJECT_MAP_TYPE_def new_map.simps if_False simp_thms)
qed

theorem max_key_or_zero_witness:
  "OidObjectMap_max_key cpython37 (run_ops (new_map (OID_OBJECT_MAP_TYPE cpython37))
      [SetItem 5 (PyObject 0), SetItem 1 (PyObject 1), SetItem 9 (PyObject 2)]) = Inr 9 \<and>
   OidObjectMap_max_key cpython27_pure (run_ops (new_map (OID_OBJECT_MAP_TYPE cpython27_pure))
      [SetItem 5 (PyObject 0), SetItem 1 (PyObject 1), SetItem 9 (PyObject 2)]) = Inr 9 \<and>
   OidObjectMap_max_key pypy36 (run_ops (new_map (OID_OBJECT_MAP_TYPE pypy36))
      [SetItem 5 (PyObject 0), SetItem 1 (PyObject 1), DelItem 5, DelItem 1]) = Inr 0"
proof -
  have a: "keys cpython37 (run_ops (new_map (OID_OBJECT_MAP_TYPE cpython37))
      [SetItem 5 (PyObject 0), SetItem 1 (PyObject 1), SetItem 9 (PyObject 2)]) = [1, 5, 9]"
    by (simp add: cpython37_def OID_OBJECT_MAP_TYPE_def in_family64_def family64_minint_def
        family64_maxint_def family64_BITSIZE_def)
  have b: "keys cpython27_pure (run_ops (new_map (OID_OBJECT_MAP_TYPE cpython27_pure))
      [SetItem 5 (PyObject 0), SetItem 1 (PyObject 1), SetItem 9 (PyObject 2)]) = [1, 5, 9]"
    by (simp add: cpython27_pure_def OID_OBJECT_MAP_TYPE_def PYPY_def PY36_def
        dict_keeps_insertion_order_def)
  have c: "keys pypy36 (run_ops (new_map (OID_OBJECT_MAP_TYPE pypy36))
      [SetItem 5 (PyObject 0), SetItem 1 (PyObject 1), DelItem 5, DelItem 1]) = []"
    by (simp add: pypy36_def OID_OBJECT_MAP_TYPE_def PYPY_def dict_keeps_insertion_order_def
        items_delitem_def)
  have m: "Max (set [1, 5, 9 :: int]) = 9" by simp
  from max_key_or_zero [of cpython37
      "[SetItem 5 (PyObject 0), SetItem 1 (PyObject 1), SetItem 9 (PyObject 2)]", THEN conjunct2]
  have 1: "OidObjectMap_max_key cpython37 (run_ops (new_map (OID_OBJECT_MAP_TYPE cpython37))
      [SetItem 5 (PyObject 0), SetItem 1 (PyObject 1), SetItem 9 (PyObject 2)]) = Inr 9"
    unfolding a m by simp
  from max_key_or_zero [of cpython27_pure
      "[SetItem 5 (PyObject 0), SetItem 1 (PyObject 1), SetItem 9 (PyObject 2)]", THEN conjunct2]
  have 2: "OidObjectMap_max_key cpython27_pure (run_ops (new_map (OID_OBJECT_MAP_TYPE cpython27_pure))
      [SetItem 5 (PyObject 0), SetItem 1 (PyObject 1), SetItem 9 (PyObject 2)]) = Inr 9"
    unfolding b m by simp
  from max_key_or_zero [of pypy36
      "[SetItem 5 (PyObject 0), SetItem 1 (PyObject 1), DelItem 5, DelItem 1]", THEN conjunct2]
  have 3: "OidObjectMap_max_key pypy36 (run_ops (new_map (OID_OBJECT_MAP_TYPE pypy36))
      [SetItem 5 (PyObject 0), SetItem 1 (PyObject 1), DelItem 5, DelItem 1]) = Inr 0"
    unfolding c by simp
  show ?thesis
    by (rule conjI [OF 1 conjI [OF 2 3]])
qed

subsection \<open>Difference, union and discard\<close>

lemma foldl_union_py_set:
  "foldl (\<lambda>acc r. acc \<union> py_set (h ! r)) U seq = U \<union> (\<Union>r\<in>set seq. py_set (h ! r))"
  by (induction seq arbitrary: U) auto

lemma multiunion_value:
  "OidTMap_multiunion h seq = (length h, h @ [PySet (\<Union>r\<in>set seq. py_set (h ! r))])"
  by (simp add: OidTMap_multiunion_def alloc_def foldl_union_py_set)

text \<open>
  What the guard "maps, not bare sets" of the map difference is about: on a set that is
  not empty, \<^verbatim>\<open>dict(c1)\<close> raises, and \<^verbatim>\<open>OidSet_difference\<close> is the function for sets.
\<close>

lemma OidTMap_difference_bare_set:
  "h ! a = PySet S \<Longrightarrow> S \<noteq> {} \<Longrightarrow> OidTMap_difference h a b = Inl TypeError"
  by (simp add: OidTMap_difference_def)

text \<open>
  Claim C3. For a map \<open>a\<close>, \<^verbatim>\<open>OidTMap_difference(a, b)\<close> returns a new \<^verbatim>\<open>dict\<close> whose keys
  are exactly the keys of \<open>a\<close> that are not in \<open>b\<close>; for any two collections,
  \<^verbatim>\<open>OidSet_difference(a, b)\<close> returns a new \<^verbatim>\<open>set\<close> of exactly the elements of \<open>a\<close> that
  are not in \<open>b\<close>. Either call leaves every object that existed before it, \<open>a\<close> and \<open>b\<close>
  among them, as it was. The difference of a collection with itself is empty, and the
  difference with an empty collection has the content of \<open>a\<close>.
\<close>

theorem difference_spec:
  assumes "a < length h" and "b < length h"
  shows
  "(\<forall>A. h ! a = PyDict A \<longrightarrow>
      (\<exists>r h' D. OidTMap_difference h a b = Inr (r, h') \<and>
         length h \<le> r \<and> r < length h' \<and> take (length h) h' = h \<and>
         h' ! a = h ! a \<and> h' ! b = h ! b \<and>
         h' ! r = PyDict D \<and> dom D = dom A - py_set (h ! b)) \<and>
      (\<exists>r h'. OidTMap_difference h a a = Inr (r, h') \<and> h' ! r = PyDict Map.empty) \<and>
      (py_set (h ! b) = {} \<longrightarrow>
         (\<exists>r h'. OidTMap_difference h a b = Inr (r, h') \<and> h' ! r = PyDict A))) \<and>
   (\<exists>r h'. OidSet_difference h a b = (r, h') \<and>
      length h \<le> r \<and> r < length h' \<and> take (length h) h' = h \<and>
      h' ! a = h ! a \<and> h' ! b = h ! b \<and>
      h' ! r = PySet (py_set (h ! a) - py_set (h ! b))) \<and>
   (\<exists>r h'. OidSet_difference h a a = (r, h') \<and> h' ! r = PySet {}) \<and>
   (py_set (h ! b) = {} \<longrightarrow>
      (\<exists>r h'. OidSet_difference h a b = (r, h') \<and> h' ! r = PySet (py_set (h ! a))))"
proof -
  have old: "(h @ [x]) ! a = h ! a" "(h @ [x]) ! b = h ! b" for x :: "'a pyobj"
    using assms by (simp_all add: nth_append)
  have maps: "(\<exists>r h' D. OidTMap_difference h a b = Inr (r, h') \<and>
         length h \<le> r \<and> r < length h' \<and> take (length h) h' = h \<and>
         h' ! a = h ! a \<and> h' ! b = h ! b \<and>
         h' ! r = PyDict D \<and> dom D = dom A - py_set (h ! b)) \<and>
      (\<exists>r h'. OidTMap_difference h a a = Inr (r, h') \<and> h' ! r = PyDict Map.empty) \<and>
      (py_set (h ! b) = {} \<longrightarrow>
         (\<exists>r h'. OidTMap_difference h a b = Inr (r, h') \<and> h' ! r = PyDict A))"
    if A: "h ! a = PyDict A" for A
  proof -
    let ?D = "\<lambda>k. if k \<in> dom A - py_set (h ! b) then A k else None"
    have v: "OidTMap_difference h a b = Inr (length h, h @ [PyDict ?D])"
      by (simp add: OidTMap_difference_def alloc_def A)
    have d: "dom ?D = dom A - py_set (h ! b)"
      by (auto simp: dom_def)
    have e: "OidTMap_difference h a a = Inr (length h, h @ [PyDict Map.empty])"
      by (simp add: OidTMap_difference_def alloc_def A)
    have f: "?D = A" if "py_set (h ! b) = {}"
    proof
      fix k
      show "?D k = A k"
        using that by (cases "A k") auto
    qed
    show ?thesis
      using v d e f old by simp
  qed
  have sets: "OidSet_difference h a b = (length h, h @ [PySet (py_set (h ! a) - py_set (h ! b))])"
    by (simp add: OidSet_difference_def alloc_def)
  have sets_self: "OidSet_difference h a a = (length h, h @ [PySet {}])"
    by (simp add: OidSet_difference_def alloc_def)
  show ?thesis
    using maps sets sets_self old by simp
qed

theorem difference_spec_witness:
  "(0::nat) < length example_heap \<and> (1::nat) < length example_heap \<and>
   example_heap ! 0 = PyDict (map_of [(5, 100), (1, 50), (9, 200)]) \<and>
   py_set (example_heap ! 2) = {} \<and>
   (\<exists>r h' D. OidTMap_difference example_heap 0 1 = Inr (r, h') \<and>
      h' ! r = PyDict D \<and> dom D = {1, 9} \<and> h' ! 0 = example_heap ! 0) \<and>
   (\<exists>r h'. OidTMap_difference example_heap 0 2 = Inr (r, h') \<and> h' ! r = example_heap ! 0) \<and>
   (\<exists>r h'. OidSet_difference example_heap 3 4 = (r, h') \<and> h' ! r = PySet {1})"
proof -
  have v: "(0::nat) < length example_heap" "(1::nat) < length example_heap"
    "(2::nat) < length example_heap" "(3::nat) < length example_heap"
    "(4::nat) < length example_heap"
    by (simp_all add: example_heap_def)
  have o: "example_heap ! 0 = PyDict (map_of [(5, 100), (1, 50), (9, 200)])"
    "py_set (example_heap ! 1) = {5}" "py_set (example_heap ! 2) = {}"
    "py_set (example_heap ! 3) = {1, 2, 3}" "py_set (example_heap ! 4) = {2, 3, 4}"
    by (simp_all add: example_heap_def)
  have d: "dom (map_of [(5, 100), (1, 50), (9::int, 200::int)]) - {5} = {1, 9}"
    by auto
  have s: "{1, 2, 3} - {2, 3, 4} = {1::int}"
    by auto
  from difference_spec [OF v(1) v(2)] o d
  have 1: "\<exists>r h' D. OidTMap_difference example_heap 0 1 = Inr (r, h') \<and>
      h' ! r = PyDict D \<and> dom D = {1, 9} \<and> h' ! 0 = example_heap ! 0"
    by auto
  from difference_spec [OF v(1) v(3)] o
  have 2: "\<exists>r h'. OidTMap_difference example_heap 0 2 = Inr (r, h') \<and> h' ! r = example_heap ! 0"
    by auto
  from difference_spec [OF v(4) v(5)] o s
  have 3: "\<exists>r h'. OidSet_difference example_heap 3 4 = (r, h') \<and> h' ! r = PySet {1}"
    by auto
  show ?thesis
    by (intro conjI) (rule v o 1 2 3)+
qed

text \<open>
  Claim C10. Applied to two maps, \<^verbatim>\<open>OidTMap_difference\<close> returns a map, and every key it
  keeps has the value that the first argument gave it at the time of the call.
\<close>

theorem difference_keeps_values:
  assumes "a < length h" and "b < length h"
    and "h ! a = PyDict A" and "h ! b = PyDict B"
  shows
  "\<exists>r h' D. OidTMap_difference h a b = Inr (r, h') \<and> h' ! r = PyDict D \<and>
      dom D = dom A - dom B \<and> (\<forall>k \<in> dom D. D k = A k) \<and>
      h' ! a = PyDict A \<and> h' ! b = PyDict B"
proof -
  let ?D = "\<lambda>k. if k \<in> dom A - dom B then A k else None"
  have "OidTMap_difference h a b = Inr (length h, h @ [PyDict ?D])"
    by (simp add: OidTMap_difference_def alloc_def assms)
  moreover have "dom ?D = dom A - dom B"
    by (auto simp: dom_def)
  moreover have "\<forall>k \<in> dom ?D. ?D k = A k"
    by (auto simp: dom_def)
  moreover have "(h @ [PyDict ?D]) ! a = PyDict A" "(h @ [PyDict ?D]) ! b = PyDict B"
    using assms by (simp_all add: nth_append)
  ultimately show ?thesis by simp
qed

theorem difference_keeps_values_witness:
  "(0::nat) < length example_heap \<and> (1::nat) < length example_heap \<and>
   example_heap ! 0 = PyDict (map_of [(5, 100), (1, 50), (9, 200)]) \<and>
   example_heap ! 1 = PyDict (map_of [(5, 7)]) \<and>
   (\<exists>r h' D. OidTMap_difference example_heap 0 1 = Inr (r, h') \<and> h' ! r = PyDict D \<and>
      dom D = {1, 9} \<and> D 1 = Some 50 \<and> D 9 = Some 200)"
proof -
  have v: "(0::nat) < length example_heap" "(1::nat) < length example_heap"
    by (simp_all add: example_heap_def)
  have o: "example_heap ! 0 = PyDict (map_of [(5, 100), (1, 50), (9, 200)])"
    "example_heap ! 1 = PyDict (map_of [(5, 7)])"
    by (simp_all add: example_heap_def)
  have d: "dom (map_of [(5, 100), (1, 50), (9::int, 200::int)]) - dom (map_of [(5::int, 7::int)]) = {1, 9}"
    by auto
  from difference_keeps_values [OF v o]
  obtain r h' D where *: "OidTMap_difference example_heap 0 1 = Inr (r, h')" "h' ! r = PyDict D"
    "dom D = dom (map_of [(5, 100), (1, 50), (9::int, 200::int)]) - dom (map_of [(5::int, 7::int)])"
    "\<forall>k \<in> dom D. D k = map_of [(5, 100), (1, 50), (9, 200)] k"
    by blast
  from *(3) d have dd: "dom D = {1, 9}" by simp
  with *(4) have "D 1 = Some 50" "D 9 = Some 200" by simp_all
  with *(1,2) dd
  have e: "\<exists>r h' D. OidTMap_difference example_heap 0 1 = Inr (r, h') \<and> h' ! r = PyDict D \<and>
      dom D = {1, 9} \<and> D 1 = Some 50 \<and> D 9 = Some 200"
    by (intro exI conjI)
  show ?thesis
    by (rule conjI [OF v(1) conjI [OF v(2) conjI [OF o(1) conjI [OF o(2) e]]]])
qed

text \<open>
  Claim C4. \<^verbatim>\<open>OidTMap_multiunion\<close> returns a new set whose elements are the union of the
  members of the sequence and leaves the members as they were. Reordering the sequence
  does not change the result; the empty sequence gives the empty set and a one-element
  sequence a new set with the elements of its member; uniting the result of a union with
  a third set gives the union of the three, whichever two are united first.
\<close>

theorem multiunion_spec:
  assumes "\<forall>r \<in> set seq. r < length h"
    and "a < length h" and "b < length h" and "c < length h"
  shows
  "(\<exists>r h'. OidTMap_multiunion h seq = (r, h') \<and>
      length h \<le> r \<and> r < length h' \<and> take (length h) h' = h \<and>
      h' ! r = PySet (\<Union>x\<in>set seq. py_set (h ! x))) \<and>
   (\<forall>seq'. mset seq' = mset seq \<longrightarrow> OidTMap_multiunion h seq' = OidTMap_multiunion h seq) \<and>
   (\<exists>r h'. OidTMap_multiunion h [] = (r, h') \<and> h' ! r = PySet {}) \<and>
   (\<exists>r h'. OidTMap_multiunion h [a] = (r, h') \<and> r \<noteq> a \<and>
      h' ! r = PySet (py_set (h ! a)) \<and> h' ! a = h ! a) \<and>
   (\<exists>r1 h1 r2 h2. OidTMap_multiunion h [a, b] = (r1, h1) \<and>
      OidTMap_multiunion h1 [r1, c] = (r2, h2) \<and>
      h2 ! r2 = PySet (py_set (h ! a) \<union> py_set (h ! b) \<union> py_set (h ! c))) \<and>
   (\<exists>r1 h1 r2 h2. OidTMap_multiunion h [b, c] = (r1, h1) \<and>
      OidTMap_multiunion h1 [a, r1] = (r2, h2) \<and>
      h2 ! r2 = PySet (py_set (h ! a) \<union> py_set (h ! b) \<union> py_set (h ! c)))"
proof -
  have perm: "OidTMap_multiunion h seq' = OidTMap_multiunion h seq"
    if "mset seq' = mset seq" for seq'
  proof -
    from that have "set seq' = set seq" by (rule mset_eq_setD)
    then show ?thesis by (simp add: multiunion_value)
  qed
  have one: "OidTMap_multiunion h [a] = (length h, h @ [PySet (py_set (h ! a))])"
    by (simp add: multiunion_value)
  have nested_l: "OidTMap_multiunion (h @ [PySet (py_set (h ! a) \<union> py_set (h ! b))]) [length h, c]
      = (Suc (length h), h @ [PySet (py_set (h ! a) \<union> py_set (h ! b))]
           @ [PySet (py_set (h ! a) \<union> py_set (h ! b) \<union> py_set (h ! c))])"
    using assms(4) by (simp add: multiunion_value nth_append)
  have nested_r: "OidTMap_multiunion (h @ [PySet (py_set (h ! b) \<union> py_set (h ! c))]) [a, length h]
      = (Suc (length h), h @ [PySet (py_set (h ! b) \<union> py_set (h ! c))]
           @ [PySet (py_set (h ! a) \<union> py_set (h ! b) \<union> py_set (h ! c))])"
    using assms(2) by (simp add: multiunion_value nth_append Un_assoc)
  have two_l: "OidTMap_multiunion h [a, b] = (length h, h @ [PySet (py_set (h ! a) \<union> py_set (h ! b))])"
    by (simp add: multiunion_value)
  have two_r: "OidTMap_multiunion h [b, c] = (length h, h @ [PySet (py_set (h ! b) \<union> py_set (h ! c))])"
    by (simp add: multiunion_value)
  have c1: "\<exists>r h'. OidTMap_multiunion h seq = (r, h') \<and>
      length h \<le> r \<and> r < length h' \<and> take (length h) h' = h \<and>
      h' ! r = PySet (\<Union>x\<in>set seq. py_set (h ! x))"
    by (simp add: multiunion_value)
  have c3: "\<exists>r h'. OidTMap_multiunion h [] = (r, h') \<and> h' ! r = PySet {}"
    by (simp add: multiunion_value)
  have c4: "\<exists>r h'. OidTMap_multiunion h [a] = (r, h') \<and> r \<noteq> a \<and>
      h' ! r = PySet (py_set (h ! a)) \<and> h' ! a = h ! a"
    using assms(2) by (simp add: one nth_append)
  have c5: "\<exists>r1 h1 r2 h2. OidTMap_multiunion h [a, b] = (r1, h1) \<and>
      OidTMap_multiunion h1 [r1, c] = (r2, h2) \<and>
      h2 ! r2 = PySet (py_set (h ! a) \<union> py_set (h ! b) \<union> py_set (h ! c))"
    unfolding two_l using nested_l by (simp add: nth_append)
  have c6: "\<exists>r1 h1 r2 h2. OidTMap_multiunion h [b, c] = (r1, h1) \<and>
      OidTMap_multiunion h1 [a, r1] = (r2, h2) \<and>
      h2 ! r2 = PySet (py_set (h ! a) \<union> py_set (h ! b) \<union> py_set (h ! c))"
    unfolding two_r using nested_r by (simp add: nth_append)
  have c2: "\<forall>seq'. mset seq' = mset seq \<longrightarrow>
      OidTMap_multiunion h seq' = OidTMap_multiunion h seq"
    by (intro allI impI) (rule perm)
  show ?thesis
    by (rule conjI [OF c1 conjI [OF c2 conjI [OF c3 conjI [OF c4 conjI [OF c5 c6]]]]])
qed

theorem multiunion_spec_witness:
  "(3::nat) < length example_heap \<and> (4::nat) < length example_heap \<and>
   (2::nat) < length example_heap \<and>
   mset [2, 4, 3::nat] = mset [3, 4, 2] \<and>
   (\<exists>r h'. OidTMap_multiunion example_heap [3, 4, 2] = (r, h') \<and> h' ! r = PySet {1, 2, 3, 4}) \<and>
   OidTMap_multiunion example_heap [2, 4, 3] = OidTMap_multiunion example_heap [3, 4, 2]"
proof -
  have v: "\<forall>r \<in> set [3, 4, 2::nat]. r < length example_heap"
    "(3::nat) < length example_heap" "(4::nat) < length example_heap"
    "(2::nat) < length example_heap"
    by (simp_all add: example_heap_def)
  have m: "mset [2, 4, 3::nat] = mset [3, 4, 2]"
    by (simp add: add_mset_commute)
  have u: "(\<Union>x\<in>set [3, 4, 2::nat]. py_set (example_heap ! x)) = {1, 2, 3, 4}"
    by (auto simp: example_heap_def)
  note t = multiunion_spec [OF v]
  from t [THEN conjunct1]
  obtain r h' where "OidTMap_multiunion example_heap [3, 4, 2] = (r, h')"
    "h' ! r = PySet (\<Union>x\<in>set [3, 4, 2::nat]. py_set (example_heap ! x))"
    by (elim exE conjE)
  then have 1: "\<exists>r h'. OidTMap_multiunion example_heap [3, 4, 2] = (r, h') \<and>
      h' ! r = PySet {1, 2, 3, 4}"
    unfolding u by (intro exI conjI)
  have 2: "OidTMap_multiunion example_heap [2, 4, 3] = OidTMap_multiunion example_heap [3, 4, 2]"
    by (rule t [THEN conjunct2, THEN conjunct1, rule_format, OF m])
  show ?thesis
    by (rule conjI [OF v(2) conjI [OF v(3) conjI [OF v(4) conjI [OF m conjI [OF 1 2]]]]])
qed

text \<open>
  Claim C6, as the code has it. \<^verbatim>\<open>OidSet_discard(s, v)\<close> on an instance of
  \<^verbatim>\<open>OID_SET_TYPE\<close>, where on the BTrees branch \<open>v\<close> is an integer of the 64-bit family
  (from \<open>-2\<^sup>6\<^sup>3\<close> to \<open>2\<^sup>6\<^sup>3 - 1\<close>), raises nothing and leaves \<open>s\<close> with its elements other
  than \<open>v\<close>: the heap is unchanged when \<open>v\<close> is absent, no other object is touched, and
  discarding \<open>v\<close> a second time changes nothing further. On the fallback branch this
  holds for every integer \<open>v\<close>.
\<close>

theorem discard_spec:
  assumes "s < length h" and "h ! s = oid_set (OID_SET_TYPE p) S"
    and "c_btrees p \<Longrightarrow> in_family64 v"
  shows
  "OidSet_discard p h s v = Inr (h[s := oid_set (OID_SET_TYPE p) (S - {v})]) \<and>
   (v \<notin> S \<longrightarrow> OidSet_discard p h s v = Inr h) \<and>
   (\<exists>h1. OidSet_discard p h s v = Inr h1 \<and>
      h1 ! s = oid_set (OID_SET_TYPE p) (S - {v}) \<and>
      (\<forall>r. r \<noteq> s \<longrightarrow> h1 ! r = h ! r) \<and>
      OidSet_discard p h1 s v = Inr h1)"
proof -
  have once: "OidSet_discard p h s v = Inr (h[s := oid_set (OID_SET_TYPE p) (S - {v})])"
    if "h ! s = oid_set (OID_SET_TYPE p) S" for h :: "'a heap" and S
  proof (cases "c_btrees p")
    case True
    with that have obj: "h ! s = TreeSet S" by (simp add: OID_SET_TYPE_def)
    from True assms(3) have rng: "in_family64 v" by simp
    show ?thesis
    proof (cases "v \<in> S")
      case True
      with obj rng \<open>c_btrees p\<close> show ?thesis
        by (simp add: OidSet_discard_def OidSet_discard_remove_def OID_SET_TYPE_def)
    next
      case False
      then have "S - {v} = S" by simp
      moreover from obj have "h[s := TreeSet S] = h"
        by (metis list_update_id)
      ultimately show ?thesis
        using obj rng False \<open>c_btrees p\<close>
        by (simp add: OidSet_discard_def OidSet_discard_remove_def OID_SET_TYPE_def)
    qed
  next
    case False
    with that have "h ! s = PySet S" by (simp add: OID_SET_TYPE_def)
    with False show ?thesis
      by (simp add: OidSet_discard_def OidSet_discard_builtin_def OID_SET_TYPE_def)
  qed
  let ?h1 = "h[s := oid_set (OID_SET_TYPE p) (S - {v})]"
  have h1s: "?h1 ! s = oid_set (OID_SET_TYPE p) (S - {v})"
    using assms(1) by simp
  have twice: "OidSet_discard p ?h1 s v = Inr ?h1"
    using once [OF h1s] by simp
  have absent: "OidSet_discard p h s v = Inr h" if "v \<notin> S"
  proof -
    from that have "S - {v} = S" by simp
    with once [OF assms(2)] assms(2) show ?thesis
      by (metis list_update_id)
  qed
  show ?thesis
    using once [OF assms(2)] h1s twice absent by simp
qed

theorem discard_spec_witness:
  "(5::nat) < length example_heap \<and>
   example_heap ! 5 = oid_set (OID_SET_TYPE cpython37) {1, 2, 3} \<and>
   c_btrees cpython37 \<and> in_family64 7 \<and> in_family64 2 \<and>
   (7::int) \<notin> {1, 2, 3} \<and>
   OidSet_discard cpython37 example_heap 5 7 = Inr example_heap \<and>
   OidSet_discard cpython37 example_heap 5 2 = Inr (example_heap[5 := TreeSet {1, 3}]) \<and>
   (3::nat) < length example_heap \<and>
   example_heap ! 3 = oid_set (OID_SET_TYPE pypy36) {1, 2, 3} \<and>
   \<not> c_btrees pypy36 \<and>
   (2 ^ 63 :: int) \<notin> {1, 2, 3} \<and>
   OidSet_discard pypy36 example_heap 3 (2 ^ 63) = Inr example_heap \<and>
   OidSet_discard pypy36 example_heap 3 2 = Inr (example_heap[3 := PySet {1, 3}])"
proof -
  have v: "(5::nat) < length example_heap" "(3::nat) < length example_heap"
    by (simp_all add: example_heap_def)
  have o: "example_heap ! 5 = oid_set (OID_SET_TYPE cpython37) {1, 2, 3}"
    by (simp add: example_heap_def OID_SET_TYPE_def cpython37_def)
  have o': "example_heap ! 3 = oid_set (OID_SET_TYPE pypy36) {1, 2, 3}"
    by (simp add: example_heap_def OID_SET_TYPE_def pypy36_def)
  have c: "c_btrees cpython37" by (simp add: cpython37_def)
  have c': "\<not> c_btrees pypy36" by (simp add: pypy36_def)
  have r: "in_family64 7" "in_family64 2"
    by (simp_all add: in_family64_def family64_minint_def family64_maxint_def
        family64_BITSIZE_def)
  have n: "(7::int) \<notin> {1, 2, 3}" by simp
  have n': "(2 ^ 63 :: int) \<notin> {1, 2, 3}" by simp
  have s: "{1, 2, 3} - {2} = {1, 3::int}" by auto
  have t: "oid_set (OID_SET_TYPE cpython37) {1, 3} = (TreeSet {1, 3} :: int pyobj)"
    by (simp add: OID_SET_TYPE_def cpython37_def)
  have t': "oid_set (OID_SET_TYPE pypy36) {1, 3} = (PySet {1, 3} :: int pyobj)"
    by (simp add: OID_SET_TYPE_def pypy36_def)
  have 1: "OidSet_discard cpython37 example_heap 5 7 = Inr example_heap"
    by (rule discard_spec [OF v(1) o r(1), THEN conjunct2, THEN conjunct1, rule_format, OF n])
  have 2: "OidSet_discard cpython37 example_heap 5 2 = Inr (example_heap[5 := TreeSet {1, 3}])"
    using discard_spec [OF v(1) o r(2), THEN conjunct1] unfolding s t .
  have 3: "OidSet_discard pypy36 example_heap 3 (2 ^ 63) = Inr example_heap"
    using discard_spec [OF v(2) o', of "2 ^ 63", THEN conjunct2, THEN conjunct1, rule_format, OF _ n']
      c' by simp
  have 4: "OidSet_discard pypy36 example_heap 3 2 = Inr (example_heap[3 := PySet {1, 3}])"
    using discard_spec [OF v(2) o', of 2, THEN conjunct1] c' unfolding s t' by simp
  show ?thesis
    by (intro conjI) (rule v o o' c c' r n n' 1 2 3 4)+
qed

text \<open>
  The claim as the specification words it, for every value, fails on the BTrees branch:
  \<open>2\<^sup>6\<^sup>3\<close> is an unsigned 64-bit integer and not an element of the set, and discarding it
  raises \<^verbatim>\<open>TypeError\<close> instead of doing nothing.
\<close>

theorem discard_out_of_range_raises:
  "c_btrees cpython37 \<and>
   example_heap ! 5 = oid_set (OID_SET_TYPE cpython37) {1, 2, 3} \<and>
   (2 ^ 63 :: int) \<notin> {1, 2, 3} \<and> (0::int) \<le> 2 ^ 63 \<and> (2 ^ 63 :: int) \<le> 2 ^ 64 - 1 \<and>
   OidSet_discard cpython37 example_heap 5 (2 ^ 63) = Inl TypeError"
  by (simp add: cpython37_def example_heap_def OID_SET_TYPE_def OidSet_discard_def
      OidSet_discard_remove_def in_family64_def family64_minint_def family64_maxint_def
      family64_BITSIZE_def)

subsection \<open>Selection of the list type\<close>

lemma array_64bit_value:
  "array_64bit p =
     Inr (if has_typecode_Q p then Some Q
          else if 8 \<le> sizeof_unsigned_long p then Some L else None)"
  by (simp add: array_64bit_def)

text \<open>
  Claim C7. \<^verbatim>\<open>OidList\<close> is the packed 64-bit array type exactly when the probe found a
  64-bit unsigned element type (\<^verbatim>\<open>'Q'\<close>, or an \<^verbatim>\<open>'L'\<close> of at least 8 bytes) and the
  interpreter is not PyPy; in every other case it is the built-in \<^verbatim>\<open>list\<close>.
\<close>

theorem OidList_selection:
  "OidList p =
     Inr (if (has_typecode_Q p \<or> 8 \<le> sizeof_unsigned_long p) \<and> python_implementation p \<noteq> ''PyPy''
          then array_type (if has_typecode_Q p then Q else L)
          else list_type) \<and>
   (\<exists>c. OidList p = Inr (array_type c)) =
     ((\<exists>c. array_64bit p = Inr (Some c)) \<and> \<not> PYPY p) \<and>
   (OidList p = Inr list_type) =
     (array_64bit p = Inr None \<or> PYPY p)"
proof -
  have "OidList p =
     Inr (if (has_typecode_Q p \<or> 8 \<le> sizeof_unsigned_long p) \<and> python_implementation p \<noteq> ''PyPy''
          then array_type (if has_typecode_Q p then Q else L)
          else list_type)"
    by (simp add: OidList_def array_64bit_value PYPY_def)
  moreover have "(\<exists>c. OidList p = Inr (array_type c)) =
     ((\<exists>c. array_64bit p = Inr (Some c)) \<and> \<not> PYPY p)"
    by (simp add: OidList_def array_64bit_value)
  moreover have "(OidList p = Inr list_type) = (array_64bit p = Inr None \<or> PYPY p)"
    by (simp add: OidList_def array_64bit_value)
  ultimately show ?thesis by (simp only: simp_thms)
qed

theorem OidList_selection_witness:
  "OidList cpython37 = Inr (array_type Q) \<and>
   OidList cpython27_pure = Inr (array_type L) \<and>
   OidList pypy36 = Inr list_type"
proof -
  have 1: "OidList cpython37 = Inr (array_type Q)"
    using OidList_selection [of cpython37, THEN conjunct1] by (simp add: cpython37_def)
  have 2: "OidList cpython27_pure = Inr (array_type L)"
    using OidList_selection [of cpython27_pure, THEN conjunct1] by (simp add: cpython27_pure_def)
  have 3: "OidList pypy36 = Inr list_type"
    using OidList_selection [of pypy36, THEN conjunct1] by (simp add: pypy36_def)
  show ?thesis
    by (rule conjI [OF 1 conjI [OF 2 3]])
qed

text \<open>
  Claim C8. The probe raises nothing: it returns \<^verbatim>\<open>'Q'\<close> when that constructs, otherwise
  \<^verbatim>\<open>'L'\<close> when its item size is at least 8 bytes, otherwise \<^verbatim>\<open>None\<close>; and with
  \<^verbatim>\<open>None\<close> the module binds \<^verbatim>\<open>OidList\<close> to \<^verbatim>\<open>list\<close> instead of raising.
\<close>

theorem array_64bit_never_raises:
  "(\<exists>r. array_64bit p = Inr r) \<and>
   (array_array p Q [1] = Inl ValueError \<longrightarrow>
      array_64bit p = Inr (if 8 \<le> sizeof_unsigned_long p then Some L else None)) \<and>
   (array_array p Q [1] \<noteq> Inl ValueError \<longrightarrow> array_64bit p = Inr (Some Q)) \<and>
   (array_64bit p = Inr None \<longrightarrow> OidList p = Inr list_type)"
  by (simp add: array_64bit_def OidList_def)

theorem array_64bit_never_raises_witness:
  "array_array cpython27_32bit Q [1] = Inl ValueError \<and>
   array_64bit cpython27_32bit = Inr None \<and>
   OidList cpython27_32bit = Inr list_type"
proof -
  have q: "array_array cpython27_32bit Q [1] = Inl ValueError"
    by (simp add: cpython27_32bit_def)
  note t = array_64bit_never_raises [of cpython27_32bit]
  from t [THEN conjunct2, THEN conjunct1, rule_format, OF q]
  have n: "array_64bit cpython27_32bit = Inr None"
    by (simp add: cpython27_32bit_def)
  have l: "OidList cpython27_32bit = Inr list_type"
    by (rule t [THEN conjunct2, THEN conjunct2, THEN conjunct2, rule_format, OF n])
  show ?thesis
    by (rule conjI [OF q conjI [OF n l]])
qed

subsection \<open>MAX\_TID\<close>

text \<open>
  Claim C9, as the code has it. \<^verbatim>\<open>MAX_TID\<close> is \<open>2\<^sup>6\<^sup>3 - 1\<close>, the largest value of the
  signed 64-bit integer type in which the \<^verbatim>\<open>II\<close> containers store a TID, and every value
  of that type is at most \<^verbatim>\<open>MAX_TID\<close>, which is itself such a value.
\<close>

theorem MAX_TID_signed_max:
  "MAX_TID = 2 ^ 63 - 1 \<and>
   (\<forall>t :: 64 word. family64_minint \<le> sint t \<and> sint t \<le> MAX_TID) \<and>
   sint (word_of_int MAX_TID :: 64 word) = MAX_TID"
proof -
  have v: "MAX_TID = 2 ^ 63 - 1"
    by (simp add: MAX_TID_def family64_maxint_def family64_BITSIZE_def)
  have m: "family64_minint = - (2 ^ 63)"
    by (simp add: family64_minint_def family64_maxint_def family64_BITSIZE_def)
  have "family64_minint \<le> sint t \<and> sint t \<le> MAX_TID" for t :: "64 word"
    using sint_lt [of t] sint_ge [of t] by (simp add: v m)
  moreover have "sint (word_of_int MAX_TID :: 64 word) = MAX_TID"
    by (simp add: v)
  ultimately show ?thesis using v by blast
qed

text \<open>
  The claim as the specification words it fails: \<^verbatim>\<open>MAX_TID\<close> is not \<open>2\<^sup>6\<^sup>4 - 1\<close>, and the
  unsigned 64-bit value \<open>2\<^sup>6\<^sup>3\<close> is greater than it.
\<close>

theorem MAX_TID_not_unsigned_max:
  "MAX_TID \<noteq> 2 ^ 64 - 1 \<and> \<not> uint (2 ^ 63 :: 64 word) \<le> MAX_TID"
  by (simp add: MAX_TID_def family64_maxint_def family64_BITSIZE_def)

end

